theory Spec2Isabelle
  imports Main "HOL-Library.Word"
begin

section \<open>Strings\<close>

text \<open>
  A JavaScript string is a sequence of 16-bit code units. The literals of the source are
  ASCII; \<open>js\<close> turns an ASCII literal into its code units.
\<close>

type_synonym jsstring = "16 word list"

definition js :: "string \<Rightarrow> jsstring" where
  "js s = map of_char s"

text \<open>
  \<open>String.prototype.trim\<close> removes, at both ends, the code units of ECMAScript's
  WhiteSpace and LineTerminator productions: TAB, LF, VT, FF, CR, SP, NBSP, U+1680,
  U+2000 to U+200A, U+2028, U+2029, U+202F, U+205F, U+3000 and U+FEFF.
\<close>

definition isWhiteSpace :: "16 word \<Rightarrow> bool" where
  "isWhiteSpace c \<longleftrightarrow>
     c = 0x0009 \<or> c = 0x000A \<or> c = 0x000B \<or> c = 0x000C \<or> c = 0x000D \<or>
     c = 0x0020 \<or> c = 0x00A0 \<or> c = 0x1680 \<or> (0x2000 \<le> c \<and> c \<le> 0x200A) \<or>
     c = 0x2028 \<or> c = 0x2029 \<or> c = 0x202F \<or> c = 0x205F \<or> c = 0x3000 \<or>
     c = 0xFEFF"

definition trim :: "jsstring \<Rightarrow> jsstring" where
  "trim s = rev (dropWhile isWhiteSpace (rev (dropWhile isWhiteSpace s)))"

section \<open>Types\<close>

datatype SsoAuthProviders = SsoGoogle | SsoMicrosoft | SsoGithub | SsoOidc

text \<open>The \<open>fields\<close> objects: google and github have the four common fields.\<close>

record OAuthFields =
  client_id :: jsstring
  client_secret :: jsstring
  callback_url :: jsstring
  scope :: jsstring

record MicrosoftFields = OAuthFields +
  tenant :: jsstring

record OidcFields = OAuthFields +
  issuer :: jsstring
  auth_url :: jsstring
  token_url :: jsstring
  userinfo_url :: jsstring

record MailFields =
  mailer_smtp_url :: jsstring
  mailer_from_address :: jsstring

text \<open>
  \<open>ConfigSection\<close>, the validator's view of a section: \<open>fields\<close> as a
  \<open>Record<string, string>\<close>, the properties in the order the object lists them.
  The selector is written \<open>fields'\<close>: the record package keeps \<open>fields\<close> for itself.
\<close>

record ConfigSection =
  enabled :: bool
  fields' :: "(jsstring \<times> jsstring) list"

text \<open>
  A section is \<open>{name, enabled, fields}\<close>; the data-sharing section has no \<open>fields\<close>.
  Declared after \<open>ConfigSection\<close>, so that \<open>enabled\<close> and \<open>fields'\<close> alone
  are a section's.
\<close>

record 'n Toggle =
  name :: 'n
  enabled :: bool

record ('n, 'f) Section = "'n Toggle" +
  fields' :: 'f

record Providers =
  google :: "(SsoAuthProviders, OAuthFields) Section"
  github :: "(SsoAuthProviders, OAuthFields) Section"
  microsoft :: "(SsoAuthProviders, MicrosoftFields) Section"
  oidc :: "(SsoAuthProviders, OidcFields) Section"

record Config =
  providers :: Providers
  mailConfigs :: "(jsstring, MailFields) Section"
  dataSharingConfigs :: "jsstring Toggle"

text \<open>
  \<open>UpdatedConfigs\<close> is \<open>{name, value}\<close>; an entry of the fetched infra-config list has
  the same shape. Declared last, so that \<open>name\<close> alone is the entry's name and a
  section's name is \<open>Toggle.name\<close>.
\<close>

record UpdatedConfigs =
  name :: jsstring
  "value" :: jsstring

type_synonym InfraConfig = UpdatedConfigs

record EnableAndDisableSsoArgs =
  provider :: jsstring
  status :: jsstring

text \<open>The variables objects the four call sites hand to a mutation.\<close>

datatype AnyVariables =
    ProviderInfoVariables "EnableAndDisableSsoArgs list"
  | InfraConfigsVariables "UpdatedConfigs list"
  | UndefinedVariables
  | StatusVariables jsstring

text \<open>
  The result of a mutation: \<open>error\<close> is an error object or undefined. A mutation handle
  is its \<open>executeMutation\<close>, from the variables to the result.
\<close>

record 'e OperationResult =
  error :: "'e option"

type_synonym 'e UseMutationResponse = "AnyVariables \<Rightarrow> 'e OperationResult"

text \<open>
  The state of one composable instance: the two refs (undefined until mounted) and the
  toasts shown so far, oldest first.
\<close>

record State =
  currentConfigs :: "Config option"
  workingConfigs :: "Config option"
  toasts :: "jsstring list"

section \<open>Building the configs on mount\<close>

definition getFieldValue :: "InfraConfig list \<Rightarrow> jsstring \<Rightarrow> jsstring" where
  "getFieldValue infraConfigs n =
     (case find (\<lambda>x. name x = n) infraConfigs of
        None \<Rightarrow> js ''''
      | Some x \<Rightarrow> value x)"

text \<open>The object assigned to \<open>currentConfigs.value\<close> in \<open>onMounted\<close>.\<close>

definition buildConfig :: "InfraConfig list \<Rightarrow> jsstring list \<Rightarrow> Config" where
  "buildConfig infraConfigs allowedAuthProviders =
     \<lparr>providers =
        \<lparr>google =
           \<lparr>Toggle.name = SsoGoogle,
            enabled = js ''GOOGLE'' \<in> set allowedAuthProviders,
            fields' =
              \<lparr>client_id = getFieldValue infraConfigs (js ''GOOGLE_CLIENT_ID''),
               client_secret = getFieldValue infraConfigs (js ''GOOGLE_CLIENT_SECRET''),
               callback_url = getFieldValue infraConfigs (js ''GOOGLE_CALLBACK_URL''),
               scope = getFieldValue infraConfigs (js ''GOOGLE_SCOPE'')\<rparr>\<rparr>,
         github =
           \<lparr>Toggle.name = SsoGithub,
            enabled = js ''GITHUB'' \<in> set allowedAuthProviders,
            fields' =
              \<lparr>client_id = getFieldValue infraConfigs (js ''GITHUB_CLIENT_ID''),
               client_secret = getFieldValue infraConfigs (js ''GITHUB_CLIENT_SECRET''),
               callback_url = getFieldValue infraConfigs (js ''GITHUB_CALLBACK_URL''),
               scope = getFieldValue infraConfigs (js ''GITHUB_SCOPE'')\<rparr>\<rparr>,
         microsoft =
           \<lparr>Toggle.name = SsoMicrosoft,
            enabled = js ''MICROSOFT'' \<in> set allowedAuthProviders,
            fields' =
              \<lparr>client_id = getFieldValue infraConfigs (js ''MICROSOFT_CLIENT_ID''),
               client_secret = getFieldValue infraConfigs (js ''MICROSOFT_CLIENT_SECRET''),
               callback_url = getFieldValue infraConfigs (js ''MICROSOFT_CALLBACK_URL''),
               scope = getFieldValue infraConfigs (js ''MICROSOFT_SCOPE''),
               tenant = getFieldValue infraConfigs (js ''MICROSOFT_TENANT'')\<rparr>\<rparr>,
         oidc =
           \<lparr>Toggle.name = SsoOidc,
            enabled = js ''OIDC'' \<in> set allowedAuthProviders,
            fields' =
              \<lparr>client_id = getFieldValue infraConfigs (js ''OIDC_CLIENT_ID''),
               client_secret = getFieldValue infraConfigs (js ''OIDC_CLIENT_SECRET''),
               callback_url = getFieldValue infraConfigs (js ''OIDC_CALLBACK_URL''),
               scope = getFieldValue infraConfigs (js ''OIDC_SCOPE''),
               issuer = getFieldValue infraConfigs (js ''OIDC_ISSUER''),
               auth_url = getFieldValue infraConfigs (js ''OIDC_AUTH_URL''),
               token_url = getFieldValue infraConfigs (js ''OIDC_TOKEN_URL''),
               userinfo_url = getFieldValue infraConfigs (js ''OIDC_USERINFO_URL'')\<rparr>\<rparr>\<rparr>,
      mailConfigs =
        \<lparr>Toggle.name = js ''email'',
         enabled = js ''EMAIL'' \<in> set allowedAuthProviders,
         fields' =
           \<lparr>mailer_smtp_url = getFieldValue infraConfigs (js ''MAILER_SMTP_URL''),
            mailer_from_address = getFieldValue infraConfigs (js ''MAILER_ADDRESS_FROM'')\<rparr>\<rparr>,
      dataSharingConfigs =
        \<lparr>Toggle.name = js ''data_sharing'',
         enabled =
           (find (\<lambda>x. name x = js ''ALLOW_ANALYTICS_COLLECTION'' \<and> value x = js ''true'')
              infraConfigs \<noteq> None)\<rparr>\<rparr>"

text \<open>\<open>cloneDeep\<close> of a value is the value: the copy shares nothing with the original.\<close>

definition cloneDeep :: "Config \<Rightarrow> Config" where
  "cloneDeep c = c"

text \<open>
  \<open>onMounted\<close>, once both fetches have completed with the lists \<open>infraConfigs\<close> and
  \<open>allowedAuthProviders\<close>.
\<close>

definition onMounted :: "InfraConfig list \<Rightarrow> jsstring list \<Rightarrow> State \<Rightarrow> State" where
  "onMounted infraConfigs allowedAuthProviders st =
     (let st1 = st\<lparr>currentConfigs := Some (buildConfig infraConfigs allowedAuthProviders)\<rparr>
      in st1\<lparr>workingConfigs := map_option cloneDeep (currentConfigs st1)\<rparr>)"

section \<open>Optional chaining\<close>

text \<open>
  \<open>updatedConfigs?.path\<close> is \<open>map_option\<close> over the optional argument; a condition is
  true when the value is \<open>true\<close> (undefined is falsy), and \<open>v ?? d\<close> is \<open>d\<close> when
  \<open>v\<close> is undefined.
\<close>

definition truthy :: "bool option \<Rightarrow> bool" where
  "truthy b = (case b of None \<Rightarrow> False | Some v \<Rightarrow> v)"

definition nullish :: "'a option \<Rightarrow> 'a \<Rightarrow> 'a" where
  "nullish v d = (case v of None \<Rightarrow> d | Some x \<Rightarrow> x)"

section \<open>Transforming the configs back: infra configs\<close>

definition updatedInfraConfigs :: "Config option \<Rightarrow> UpdatedConfigs list" where
  "updatedInfraConfigs updatedConfigs =
     (let config = [\<lparr>name = js '''', value = js ''''\<rparr>];
          config =
            (if truthy (map_option (\<lambda>c. enabled (google (providers c))) updatedConfigs)
             then config @
               [\<lparr>name = js ''GOOGLE_CLIENT_ID'',
                 value = nullish (map_option (\<lambda>c. client_id (fields' (google (providers c)))) updatedConfigs) (js '''')\<rparr>,
                \<lparr>name = js ''GOOGLE_CLIENT_SECRET'',
                 value = nullish (map_option (\<lambda>c. client_secret (fields' (google (providers c)))) updatedConfigs) (js '''')\<rparr>,
                \<lparr>name = js ''GOOGLE_CALLBACK_URL'',
                 value = nullish (map_option (\<lambda>c. callback_url (fields' (google (providers c)))) updatedConfigs) (js '''')\<rparr>,
                \<lparr>name = js ''GOOGLE_SCOPE'',
                 value = nullish (map_option (\<lambda>c. scope (fields' (google (providers c)))) updatedConfigs) (js '''')\<rparr>]
             else filter
               (\<lambda>item.
                  name item \<noteq> js ''GOOGLE_CLIENT_ID'' \<and>
                  name item \<noteq> js ''GOOGLE_CLIENT_SECRET'' \<and>
                  name item \<noteq> js ''GOOGLE_CALLBACK_URL'' \<and>
                  name item \<noteq> js ''GOOGLE_SCOPE'')
               config);
          config =
            (if truthy (map_option (\<lambda>c. enabled (microsoft (providers c))) updatedConfigs)
             then config @
               [\<lparr>name = js ''MICROSOFT_CLIENT_ID'',
                 value = nullish (map_option (\<lambda>c. client_id (fields' (microsoft (providers c)))) updatedConfigs) (js '''')\<rparr>,
                \<lparr>name = js ''MICROSOFT_CLIENT_SECRET'',
                 value = nullish (map_option (\<lambda>c. client_secret (fields' (microsoft (providers c)))) updatedConfigs) (js '''')\<rparr>,
                \<lparr>name = js ''MICROSOFT_CALLBACK_URL'',
                 value = nullish (map_option (\<lambda>c. callback_url (fields' (microsoft (providers c)))) updatedConfigs) (js '''')\<rparr>,
                \<lparr>name = js ''MICROSOFT_SCOPE'',
                 value = nullish (map_option (\<lambda>c. scope (fields' (microsoft (providers c)))) updatedConfigs) (js '''')\<rparr>,
                \<lparr>name = js ''MICROSOFT_TENANT'',
                 value = nullish (map_option (\<lambda>c. tenant (fields' (microsoft (providers c)))) updatedConfigs) (js '''')\<rparr>]
             else filter
               (\<lambda>item.
                  name item \<noteq> js ''MICROSOFT_CLIENT_ID'' \<and>
                  name item \<noteq> js ''MICROSOFT_CLIENT_SECRET'' \<and>
                  name item \<noteq> js ''MICROSOFT_CALLBACK_URL'' \<and>
                  name item \<noteq> js ''MICROSOFT_SCOPE'' \<and>
                  name item \<noteq> js ''MICROSOFT_TENANT'')
               config);
          config =
            (if truthy (map_option (\<lambda>c. enabled (github (providers c))) updatedConfigs)
             then config @
               [\<lparr>name = js ''GITHUB_CLIENT_ID'',
                 value = nullish (map_option (\<lambda>c. client_id (fields' (github (providers c)))) updatedConfigs) (js '''')\<rparr>,
                \<lparr>name = js ''GITHUB_CLIENT_SECRET'',
                 value = nullish (map_option (\<lambda>c. client_secret (fields' (github (providers c)))) updatedConfigs) (js '''')\<rparr>,
                \<lparr>name = js ''GITHUB_CALLBACK_URL'',
                 value = nullish (map_option (\<lambda>c. callback_url (fields' (github (providers c)))) updatedConfigs) (js '''')\<rparr>,
                \<lparr>name = js ''GITHUB_SCOPE'',
                 value = nullish (map_option (\<lambda>c. scope (fields' (github (providers c)))) updatedConfigs) (js '''')\<rparr>]
             else filter
               (\<lambda>item.
                  name item \<noteq> js ''GITHUB_CLIENT_ID'' \<and>
                  name item \<noteq> js ''GITHUB_CLIENT_SECRET'' \<and>
                  name item \<noteq> js ''GITHUB_CALLBACK_URL'' \<and>
                  name item \<noteq> js ''GITHUB_SCOPE'')
               config);
          config =
            (if truthy (map_option (\<lambda>c. enabled (oidc (providers c))) updatedConfigs)
             then config @
               [\<lparr>name = js ''OIDC_CLIENT_ID'',
                 value = nullish (map_option (\<lambda>c. client_id (fields' (oidc (providers c)))) updatedConfigs) (js '''')\<rparr>,
                \<lparr>name = js ''OIDC_CLIENT_SECRET'',
                 value = nullish (map_option (\<lambda>c. client_secret (fields' (oidc (providers c)))) updatedConfigs) (js '''')\<rparr>,
                \<lparr>name = js ''OIDC_CALLBACK_URL'',
                 value = nullish (map_option (\<lambda>c. callback_url (fields' (oidc (providers c)))) updatedConfigs) (js '''')\<rparr>,
                \<lparr>name = js ''OIDC_SCOPE'',
                 value = nullish (map_option (\<lambda>c. scope (fields' (oidc (providers c)))) updatedConfigs) (js '''')\<rparr>,
                \<lparr>name = js ''OIDC_ISSUER'',
                 value = nullish (map_option (\<lambda>c. issuer (fields' (oidc (providers c)))) updatedConfigs) (js '''')\<rparr>,
                \<lparr>name = js ''OIDC_AUTH_URL'',
                 value = nullish (map_option (\<lambda>c. auth_url (fields' (oidc (providers c)))) updatedConfigs) (js '''')\<rparr>,
                \<lparr>name = js ''OIDC_TOKEN_URL'',
                 value = nullish (map_option (\<lambda>c. token_url (fields' (oidc (providers c)))) updatedConfigs) (js '''')\<rparr>,
                \<lparr>name = js ''OIDC_USERINFO_URL'',
                 value = nullish (map_option (\<lambda>c. userinfo_url (fields' (oidc (providers c)))) updatedConfigs) (js '''')\<rparr>]
             else filter
               (\<lambda>item.
                  name item \<noteq> js ''OIDC_CLIENT_ID'' \<and>
                  name item \<noteq> js ''OIDC_CLIENT_SECRET'' \<and>
                  name item \<noteq> js ''OIDC_CALLBACK_URL'' \<and>
                  name item \<noteq> js ''OIDC_SCOPE'' \<and>
                  name item \<noteq> js ''OIDC_ISSUER'' \<and>
                  name item \<noteq> js ''OIDC_AUTH_URL'' \<and>
                  name item \<noteq> js ''OIDC_TOKEN_URL'' \<and>
                  name item \<noteq> js ''OIDC_USERINFO_URL'')
               config);
          config =
            (if truthy (map_option (\<lambda>c. enabled (mailConfigs c)) updatedConfigs)
             then config @
               [\<lparr>name = js ''MAILER_SMTP_URL'',
                 value = nullish (map_option (\<lambda>c. mailer_smtp_url (fields' (mailConfigs c))) updatedConfigs) (js '''')\<rparr>,
                \<lparr>name = js ''MAILER_ADDRESS_FROM'',
                 value = nullish (map_option (\<lambda>c. mailer_from_address (fields' (mailConfigs c))) updatedConfigs) (js '''')\<rparr>]
             else filter
               (\<lambda>item.
                  name item \<noteq> js ''MAILER_SMTP_URL'' \<and> name item \<noteq> js ''MAILER_ADDRESS_FROM'')
               config);
          config = filter (\<lambda>item. name item \<noteq> js '''') config
      in config)"

section \<open>Checking if any of the config fields are empty\<close>

definition isFieldEmpty :: "jsstring \<Rightarrow> bool" where
  "isFieldEmpty field = (trim field = js '''')"

text \<open>
  A section of \<open>Config\<close> read at the type \<open>ConfigSection\<close>: the same object, its
  \<open>fields\<close> as the list of its properties.
\<close>

definition oauthSection :: "('n, OAuthFields) Section \<Rightarrow> ConfigSection" where
  "oauthSection s =
     \<lparr>ConfigSection.enabled = enabled s,
      ConfigSection.fields' =
        [(js ''client_id'', client_id (fields' s)),
         (js ''client_secret'', client_secret (fields' s)),
         (js ''callback_url'', callback_url (fields' s)),
         (js ''scope'', scope (fields' s))]\<rparr>"

definition microsoftSection :: "('n, MicrosoftFields) Section \<Rightarrow> ConfigSection" where
  "microsoftSection s =
     \<lparr>ConfigSection.enabled = enabled s,
      ConfigSection.fields' =
        [(js ''client_id'', client_id (fields' s)),
         (js ''client_secret'', client_secret (fields' s)),
         (js ''callback_url'', callback_url (fields' s)),
         (js ''scope'', scope (fields' s)),
         (js ''tenant'', tenant (fields' s))]\<rparr>"

definition mailSection :: "('n, MailFields) Section \<Rightarrow> ConfigSection" where
  "mailSection s =
     \<lparr>ConfigSection.enabled = enabled s,
      ConfigSection.fields' =
        [(js ''mailer_smtp_url'', mailer_smtp_url (fields' s)),
         (js ''mailer_from_address'', mailer_from_address (fields' s))]\<rparr>"

definition Object_values :: "('k \<times> 'v) list \<Rightarrow> 'v list" where
  "Object_values obj = map snd obj"

definition AreAnyConfigFieldsEmpty :: "Config \<Rightarrow> bool" where
  "AreAnyConfigFieldsEmpty config =
     (let sections =
        [oauthSection (github (providers config)),
         oauthSection (google (providers config)),
         microsoftSection (microsoft (providers config)),
         mailSection (mailConfigs config)]
      in list_ex
           (\<lambda>section.
              ConfigSection.enabled section \<and>
              list_ex isFieldEmpty (Object_values (ConfigSection.fields' section)))
           sections)"

section \<open>Transforming the configs back: auth providers\<close>

definition updatedAllowedAuthProviders :: "Config option \<Rightarrow> EnableAndDisableSsoArgs list" where
  "updatedAllowedAuthProviders updatedConfigs =
     [\<lparr>provider = js ''GOOGLE'',
       status =
         (if truthy (map_option (\<lambda>c. enabled (google (providers c))) updatedConfigs)
          then js ''ENABLE'' else js ''DISABLE'')\<rparr>,
      \<lparr>provider = js ''MICROSOFT'',
       status =
         (if truthy (map_option (\<lambda>c. enabled (microsoft (providers c))) updatedConfigs)
          then js ''ENABLE'' else js ''DISABLE'')\<rparr>,
      \<lparr>provider = js ''GITHUB'',
       status =
         (if truthy (map_option (\<lambda>c. enabled (github (providers c))) updatedConfigs)
          then js ''ENABLE'' else js ''DISABLE'')\<rparr>,
      \<lparr>provider = js ''EMAIL'',
       status =
         (if truthy (map_option (\<lambda>c. enabled (mailConfigs c)) updatedConfigs)
          then js ''ENABLE'' else js ''DISABLE'')\<rparr>]"

section \<open>Mutation execution and error handling\<close>

text \<open>
  \<open>t\<close> is the translation function of \<open>useI18n\<close>; \<open>toast.error\<close> appends its message
  to the toasts of the state. The result is the returned boolean and the state after.
\<close>

definition executeMutation ::
  "(jsstring \<Rightarrow> jsstring) \<Rightarrow> 'e UseMutationResponse \<Rightarrow> AnyVariables \<Rightarrow> jsstring \<Rightarrow>
   State \<Rightarrow> bool \<times> State" where
  "executeMutation t mutation variables errorMessage st =
     (let result = mutation variables
      in if error result \<noteq> None
         then (False, st\<lparr>toasts := toasts st @ [t errorMessage]\<rparr>)
         else (True, st))"

definition updateAuthProvider ::
  "(jsstring \<Rightarrow> jsstring) \<Rightarrow> Config option \<Rightarrow> 'e UseMutationResponse \<Rightarrow>
   State \<Rightarrow> bool \<times> State" where
  "updateAuthProvider t updatedConfigs updateProviderStatus st =
     executeMutation t updateProviderStatus
       (ProviderInfoVariables (updatedAllowedAuthProviders updatedConfigs))
       (js ''configs.auth_providers.update_failure'') st"

definition updateInfraConfigs ::
  "(jsstring \<Rightarrow> jsstring) \<Rightarrow> Config option \<Rightarrow> 'e UseMutationResponse \<Rightarrow>
   State \<Rightarrow> bool \<times> State" where
  "updateInfraConfigs t updatedConfigs updateInfraConfigsMutation st =
     executeMutation t updateInfraConfigsMutation
       (InfraConfigsVariables (updatedInfraConfigs updatedConfigs))
       (js ''configs.mail_configs.update_failure'') st"

definition resetInfraConfigs ::
  "(jsstring \<Rightarrow> jsstring) \<Rightarrow> 'e UseMutationResponse \<Rightarrow> State \<Rightarrow> bool \<times> State" where
  "resetInfraConfigs t resetInfraConfigsMutation st =
     executeMutation t resetInfraConfigsMutation UndefinedVariables
       (js ''configs.reset.failure'') st"

definition updateDataSharingConfigs ::
  "(jsstring \<Rightarrow> jsstring) \<Rightarrow> Config option \<Rightarrow> 'e UseMutationResponse \<Rightarrow>
   State \<Rightarrow> bool \<times> State" where
  "updateDataSharingConfigs t updatedConfigs toggleDataSharingMutation st =
     executeMutation t toggleDataSharingMutation
       (StatusVariables
          (if truthy (map_option (\<lambda>c. enabled (dataSharingConfigs c)) updatedConfigs)
           then js ''ENABLE'' else js ''DISABLE''))
       (js ''configs.data_sharing.update_failure'') st"

section \<open>Example inputs\<close>

text \<open>
  The edit that switches every section on, as an admin makes it on the working copy
  before saving: only the five \<open>enabled\<close> flags change.
\<close>

definition enableAllSections :: "Config \<Rightarrow> Config" where
  "enableAllSections c =
     c\<lparr>providers :=
         (providers c)
           \<lparr>google := (google (providers c))\<lparr>enabled := True\<rparr>,
            microsoft := (microsoft (providers c))\<lparr>enabled := True\<rparr>,
            github := (github (providers c))\<lparr>enabled := True\<rparr>,
            oidc := (oidc (providers c))\<lparr>enabled := True\<rparr>\<rparr>,
       mailConfigs := (mailConfigs c)\<lparr>enabled := True\<rparr>\<rparr>"

text \<open>
  The fetched lists of the specification's example scenario, a config whose sections all
  hold values, with the five \<open>enabled\<close> flags as parameters, a translation function,
  a mutation handle that fails and one that succeeds, and the state before and after
  mounting.
\<close>

definition exampleInfraConfigs :: "InfraConfig list" where
  "exampleInfraConfigs =
     [\<lparr>name = js ''GOOGLE_CLIENT_ID'', value = js ''abc''\<rparr>,
      \<lparr>name = js ''ALLOW_ANALYTICS_COLLECTION'', value = js ''true''\<rparr>]"

definition exampleProviders :: "jsstring list" where
  "exampleProviders = [js ''GOOGLE'']"

definition exampleConfig :: "bool \<Rightarrow> bool \<Rightarrow> bool \<Rightarrow> bool \<Rightarrow> bool \<Rightarrow> Config" where
  "exampleConfig g ms gh oi ml =
     \<lparr>providers =
        \<lparr>google =
           \<lparr>Toggle.name = SsoGoogle, enabled = g,
            fields' =
              \<lparr>client_id = js ''g-id'', client_secret = js ''g-secret'',
               callback_url = js ''https://g/cb'', scope = js ''email''\<rparr>\<rparr>,
         github =
           \<lparr>Toggle.name = SsoGithub, enabled = gh,
            fields' =
              \<lparr>client_id = js ''gh-id'', client_secret = js ''gh-secret'',
               callback_url = js ''https://gh/cb'', scope = js ''user''\<rparr>\<rparr>,
         microsoft =
           \<lparr>Toggle.name = SsoMicrosoft, enabled = ms,
            fields' =
              \<lparr>client_id = js ''ms-id'', client_secret = js ''ms-secret'',
               callback_url = js ''https://ms/cb'', scope = js ''read'',
               tenant = js ''common''\<rparr>\<rparr>,
         oidc =
           \<lparr>Toggle.name = SsoOidc, enabled = oi,
            fields' =
              \<lparr>client_id = js ''o-id'', client_secret = js ''o-secret'',
               callback_url = js ''https://o/cb'', scope = js ''openid'',
               issuer = js ''https://o'', auth_url = js ''https://o/auth'',
               token_url = js ''https://o/token'',
               userinfo_url = js ''https://o/userinfo''\<rparr>\<rparr>\<rparr>,
      mailConfigs =
        \<lparr>Toggle.name = js ''email'', enabled = ml,
         fields' =
           \<lparr>mailer_smtp_url = js ''smtp://mail'',
            mailer_from_address = js ''admin@example.org''\<rparr>\<rparr>,
      dataSharingConfigs = \<lparr>Toggle.name = js ''data_sharing'', enabled = False\<rparr>\<rparr>"

definition exampleT :: "jsstring \<Rightarrow> jsstring" where
  "exampleT key = js ''translated: '' @ key"

definition failingMutation :: "unit UseMutationResponse" where
  "failingMutation variables = \<lparr>error = Some ()\<rparr>"

definition succeedingMutation :: "unit UseMutationResponse" where
  "succeedingMutation variables = \<lparr>error = None\<rparr>"

definition initialState :: State where
  "initialState = \<lparr>currentConfigs = None, workingConfigs = None, toasts = []\<rparr>"

definition mountedState :: State where
  "mountedState = onMounted exampleInfraConfigs exampleProviders initialState"

section \<open>Facts about strings\<close>

lemma unat_of_char_16: "unat (of_char c :: 16 word) = of_char c"
proof -
  have "(of_char c :: 16 word) = of_nat (of_char c)"
    by (simp add: of_nat_of_char)
  then have "unat (of_char c :: 16 word) = of_char c mod 2 ^ 16"
    by (simp add: unat_of_nat)
  moreover have "(of_char c :: nat) < 2 ^ 16"
  proof -
    have "(of_char c :: nat) < 256" by (rule nat_of_char_less_256)
    also have "(256 :: nat) < 2 ^ 16" by simp
    finally show ?thesis .
  qed
  ultimately show ?thesis by simp
qed

lemma of_char_16_eq_iff: "(of_char a :: 16 word) = of_char b \<longleftrightarrow> a = b"
proof
  assume "(of_char a :: 16 word) = of_char b"
  then have "unat (of_char a :: 16 word) = unat (of_char b :: 16 word)" by simp
  then have "(of_char a :: nat) = of_char b" by (simp only: unat_of_char_16)
  then show "a = b" by simp
qed simp

lemma js_eq_iff [simp]: "js a = js b \<longleftrightarrow> a = b"
proof
  assume "js a = js b"
  then show "a = b"
    unfolding js_def
  proof (induction a arbitrary: b)
    case Nil
    then show ?case by simp
  next
    case (Cons x xs)
    then obtain y ys where b: "b = y # ys" by (cases b) auto
    with Cons.prems have "(of_char x :: 16 word) = of_char y" and "map of_char xs = (map of_char ys :: 16 word list)"
      by simp_all
    with Cons.IH [of ys] b show ?case by (simp add: of_char_16_eq_iff)
  qed
qed simp

lemma js_Nil [simp]: "js [] = []"
  by (simp add: js_def)

lemma js_eq_Nil [simp]: "js a = [] \<longleftrightarrow> a = []" "[] = js a \<longleftrightarrow> a = []"
  by (auto simp add: js_def)

text \<open>A string trims to the empty string exactly when all its code units are white space.\<close>

lemma trim_empty_iff: "trim s = [] \<longleftrightarrow> (\<forall>c \<in> set s. isWhiteSpace c)"
proof -
  have "trim s = [] \<longleftrightarrow> (\<forall>c \<in> set (dropWhile isWhiteSpace s). isWhiteSpace c)"
    by (simp add: trim_def dropWhile_eq_Nil_conv)
  also have "\<dots> \<longleftrightarrow> dropWhile isWhiteSpace s = []"
  proof
    assume a: "\<forall>c \<in> set (dropWhile isWhiteSpace s). isWhiteSpace c"
    show "dropWhile isWhiteSpace s = []"
    proof (cases "dropWhile isWhiteSpace s")
      case Nil
      then show ?thesis .
    next
      case (Cons x xs)
      then have "\<not> isWhiteSpace x"
        using hd_dropWhile [of isWhiteSpace s] by simp
      with a Cons show ?thesis by simp
    qed
  next
    assume "dropWhile isWhiteSpace s = []"
    then show "\<forall>c \<in> set (dropWhile isWhiteSpace s). isWhiteSpace c"
      by (simp only: set_simps ball_empty)
  qed
  also have "\<dots> \<longleftrightarrow> (\<forall>c \<in> set s. isWhiteSpace c)"
    by (simp add: dropWhile_eq_Nil_conv)
  finally show ?thesis .
qed

lemma isFieldEmpty_iff: "isFieldEmpty field \<longleftrightarrow> list_all isWhiteSpace field"
  by (simp add: isFieldEmpty_def trim_empty_iff list_all_iff)

lemma isFieldEmpty_examples:
  "isFieldEmpty (js '''')"
  "isFieldEmpty (js ''   '')"
  "isFieldEmpty [0x0009, 0x000A, 0x00A0, 0x2003, 0xFEFF]"
  "\<not> isFieldEmpty (js '' a '')"
  "\<not> isFieldEmpty [0x200B]"
  "trim (js ''  a b  '') = js ''a b''"
  by (simp_all add: isFieldEmpty_iff isWhiteSpace_def js_def trim_def)

section \<open>Facts about optional chaining and lookups\<close>

lemma truthy_Some [simp]: "truthy (Some b) = b"
  by (simp add: truthy_def)

lemma truthy_None [simp]: "truthy None = False"
  by (simp add: truthy_def)

lemma nullish_Some [simp]: "nullish (Some v) d = v"
  by (simp add: nullish_def)

lemma nullish_None [simp]: "nullish None d = d"
  by (simp add: nullish_def)

lemma entry_eq_iff:
  fixes x :: UpdatedConfigs
  shows "name x = n \<and> value x = v \<longleftrightarrow> x = \<lparr>name = n, value = v\<rparr>"
  by (cases x) auto

lemma find_name_value:
  "find (\<lambda>x. name x = n \<and> value x = v) xs \<noteq> None \<longleftrightarrow> \<lparr>name = n, value = v\<rparr> \<in> set xs"
  by (simp only: entry_eq_iff find_None_iff) simp

lemma getFieldValue_absent:
  "n \<notin> name ` set infraConfigs \<Longrightarrow> getFieldValue infraConfigs n = js ''''"
  by (induction infraConfigs) (auto simp add: getFieldValue_def)

lemma getFieldValue_present:
  "n \<in> name ` set infraConfigs \<Longrightarrow>
     \<lparr>name = n, value = getFieldValue infraConfigs n\<rparr> \<in> set infraConfigs"
  by (induction infraConfigs) (auto simp add: getFieldValue_def)

lemma getFieldValue_distinct:
  "distinct (map name infraConfigs) \<Longrightarrow> e \<in> set infraConfigs \<Longrightarrow>
     getFieldValue infraConfigs (name e) = value e"
  by (induction infraConfigs) (auto simp add: getFieldValue_def)

lemma lookup_names:
  "map name (map (\<lambda>k. \<lparr>name = k, value = getFieldValue infraConfigs k\<rparr>) ks) = ks"
  by (induction ks) simp_all

lemma lookup_from_input:
  assumes "e \<in> set (map (\<lambda>k. \<lparr>name = k, value = getFieldValue infraConfigs k\<rparr>) ks)"
  shows "e \<in> set infraConfigs \<or> (name e \<notin> name ` set infraConfigs \<and> value e = js '''')"
proof -
  from assms obtain k where e: "e = \<lparr>name = k, value = getFieldValue infraConfigs k\<rparr>"
    by auto
  show ?thesis
  proof (cases "k \<in> name ` set infraConfigs")
    case True
    then show ?thesis using e getFieldValue_present by simp
  next
    case False
    then show ?thesis using e getFieldValue_absent by simp
  qed
qed

lemma lookup_covers_input:
  assumes "distinct (map name infraConfigs)" and "e \<in> set infraConfigs" and "name e \<in> set ks"
  shows "e \<in> set (map (\<lambda>k. \<lparr>name = k, value = getFieldValue infraConfigs k\<rparr>) ks)"
proof -
  have "\<lparr>name = name e, value = getFieldValue infraConfigs (name e)\<rparr> = e"
    using getFieldValue_distinct [OF assms(1,2)] by simp
  with assms(3) show ?thesis by force
qed

lemma onMounted_refs:
  "currentConfigs (onMounted infraConfigs allowedAuthProviders st) =
     Some (buildConfig infraConfigs allowedAuthProviders)"
  "workingConfigs (onMounted infraConfigs allowedAuthProviders st) =
     Some (buildConfig infraConfigs allowedAuthProviders)"
  by (simp_all add: onMounted_def cloneDeep_def Let_def)

section \<open>The reverse transform, section by section\<close>

lemma updatedInfraConfigs_Some:
  "updatedInfraConfigs (Some c) =
     (if enabled (google (providers c)) then
        [\<lparr>name = js ''GOOGLE_CLIENT_ID'', value = client_id (fields' (google (providers c)))\<rparr>,
         \<lparr>name = js ''GOOGLE_CLIENT_SECRET'', value = client_secret (fields' (google (providers c)))\<rparr>,
         \<lparr>name = js ''GOOGLE_CALLBACK_URL'', value = callback_url (fields' (google (providers c)))\<rparr>,
         \<lparr>name = js ''GOOGLE_SCOPE'', value = scope (fields' (google (providers c)))\<rparr>]
      else []) @
     (if enabled (microsoft (providers c)) then
        [\<lparr>name = js ''MICROSOFT_CLIENT_ID'', value = client_id (fields' (microsoft (providers c)))\<rparr>,
         \<lparr>name = js ''MICROSOFT_CLIENT_SECRET'', value = client_secret (fields' (microsoft (providers c)))\<rparr>,
         \<lparr>name = js ''MICROSOFT_CALLBACK_URL'', value = callback_url (fields' (microsoft (providers c)))\<rparr>,
         \<lparr>name = js ''MICROSOFT_SCOPE'', value = scope (fields' (microsoft (providers c)))\<rparr>,
         \<lparr>name = js ''MICROSOFT_TENANT'', value = tenant (fields' (microsoft (providers c)))\<rparr>]
      else []) @
     (if enabled (github (providers c)) then
        [\<lparr>name = js ''GITHUB_CLIENT_ID'', value = client_id (fields' (github (providers c)))\<rparr>,
         \<lparr>name = js ''GITHUB_CLIENT_SECRET'', value = client_secret (fields' (github (providers c)))\<rparr>,
         \<lparr>name = js ''GITHUB_CALLBACK_URL'', value = callback_url (fields' (github (providers c)))\<rparr>,
         \<lparr>name = js ''GITHUB_SCOPE'', value = scope (fields' (github (providers c)))\<rparr>]
      else []) @
     (if enabled (oidc (providers c)) then
        [\<lparr>name = js ''OIDC_CLIENT_ID'', value = client_id (fields' (oidc (providers c)))\<rparr>,
         \<lparr>name = js ''OIDC_CLIENT_SECRET'', value = client_secret (fields' (oidc (providers c)))\<rparr>,
         \<lparr>name = js ''OIDC_CALLBACK_URL'', value = callback_url (fields' (oidc (providers c)))\<rparr>,
         \<lparr>name = js ''OIDC_SCOPE'', value = scope (fields' (oidc (providers c)))\<rparr>,
         \<lparr>name = js ''OIDC_ISSUER'', value = issuer (fields' (oidc (providers c)))\<rparr>,
         \<lparr>name = js ''OIDC_AUTH_URL'', value = auth_url (fields' (oidc (providers c)))\<rparr>,
         \<lparr>name = js ''OIDC_TOKEN_URL'', value = token_url (fields' (oidc (providers c)))\<rparr>,
         \<lparr>name = js ''OIDC_USERINFO_URL'', value = userinfo_url (fields' (oidc (providers c)))\<rparr>]
      else []) @
     (if enabled (mailConfigs c) then
        [\<lparr>name = js ''MAILER_SMTP_URL'', value = mailer_smtp_url (fields' (mailConfigs c))\<rparr>,
         \<lparr>name = js ''MAILER_ADDRESS_FROM'', value = mailer_from_address (fields' (mailConfigs c))\<rparr>]
      else [])"
  unfolding updatedInfraConfigs_def Let_def
  by (cases "enabled (google (providers c))"; cases "enabled (microsoft (providers c))";
      cases "enabled (github (providers c))"; cases "enabled (oidc (providers c))";
      cases "enabled (mailConfigs c)"; simp)

lemma updatedInfraConfigs_names:
  "map name (updatedInfraConfigs (Some c)) =
     (if enabled (google (providers c)) then
        map js [''GOOGLE_CLIENT_ID'', ''GOOGLE_CLIENT_SECRET'', ''GOOGLE_CALLBACK_URL'',
                ''GOOGLE_SCOPE'']
      else []) @
     (if enabled (microsoft (providers c)) then
        map js [''MICROSOFT_CLIENT_ID'', ''MICROSOFT_CLIENT_SECRET'', ''MICROSOFT_CALLBACK_URL'',
                ''MICROSOFT_SCOPE'', ''MICROSOFT_TENANT'']
      else []) @
     (if enabled (github (providers c)) then
        map js [''GITHUB_CLIENT_ID'', ''GITHUB_CLIENT_SECRET'', ''GITHUB_CALLBACK_URL'',
                ''GITHUB_SCOPE'']
      else []) @
     (if enabled (oidc (providers c)) then
        map js [''OIDC_CLIENT_ID'', ''OIDC_CLIENT_SECRET'', ''OIDC_CALLBACK_URL'', ''OIDC_SCOPE'',
                ''OIDC_ISSUER'', ''OIDC_AUTH_URL'', ''OIDC_TOKEN_URL'', ''OIDC_USERINFO_URL'']
      else []) @
     (if enabled (mailConfigs c) then
        map js [''MAILER_SMTP_URL'', ''MAILER_ADDRESS_FROM'']
      else [])"
  by (simp add: updatedInfraConfigs_Some)

lemma roundtrip_list:
  "updatedInfraConfigs (Some (enableAllSections (buildConfig infraConfigs allowedAuthProviders))) =
     map (\<lambda>k. \<lparr>name = k, value = getFieldValue infraConfigs k\<rparr>)
       (map js
         [''GOOGLE_CLIENT_ID'', ''GOOGLE_CLIENT_SECRET'', ''GOOGLE_CALLBACK_URL'', ''GOOGLE_SCOPE'',
          ''MICROSOFT_CLIENT_ID'', ''MICROSOFT_CLIENT_SECRET'', ''MICROSOFT_CALLBACK_URL'',
          ''MICROSOFT_SCOPE'', ''MICROSOFT_TENANT'',
          ''GITHUB_CLIENT_ID'', ''GITHUB_CLIENT_SECRET'', ''GITHUB_CALLBACK_URL'', ''GITHUB_SCOPE'',
          ''OIDC_CLIENT_ID'', ''OIDC_CLIENT_SECRET'', ''OIDC_CALLBACK_URL'', ''OIDC_SCOPE'',
          ''OIDC_ISSUER'', ''OIDC_AUTH_URL'', ''OIDC_TOKEN_URL'', ''OIDC_USERINFO_URL'',
          ''MAILER_SMTP_URL'', ''MAILER_ADDRESS_FROM''])"
  by (simp add: updatedInfraConfigs_Some enableAllSections_def buildConfig_def)

section \<open>The claims\<close>

text \<open>
  C1. Round trip. For every fetched infra-config list and every provider list, build the
  config, switch every section on and reverse-transform it. The names of the result are
  the 23 field keys in the fixed order google, microsoft, github, oidc, mail. Every entry
  of the result is an entry of the input, or its name is absent from the input and its
  value is the empty string. When the names of the input are unique (the invariant of a
  fetched list), every input entry with one of the 23 keys is in the result: the result
  matches the input's entries for the enabled sections, and ALLOW_ANALYTICS_COLLECTION,
  which belongs to no section, is left out.
\<close>

theorem build_then_reverse_roundtrip:
  "let out = updatedInfraConfigs
               (Some (enableAllSections (buildConfig infraConfigs allowedAuthProviders)));
       keys = map js
         [''GOOGLE_CLIENT_ID'', ''GOOGLE_CLIENT_SECRET'', ''GOOGLE_CALLBACK_URL'', ''GOOGLE_SCOPE'',
          ''MICROSOFT_CLIENT_ID'', ''MICROSOFT_CLIENT_SECRET'', ''MICROSOFT_CALLBACK_URL'',
          ''MICROSOFT_SCOPE'', ''MICROSOFT_TENANT'',
          ''GITHUB_CLIENT_ID'', ''GITHUB_CLIENT_SECRET'', ''GITHUB_CALLBACK_URL'', ''GITHUB_SCOPE'',
          ''OIDC_CLIENT_ID'', ''OIDC_CLIENT_SECRET'', ''OIDC_CALLBACK_URL'', ''OIDC_SCOPE'',
          ''OIDC_ISSUER'', ''OIDC_AUTH_URL'', ''OIDC_TOKEN_URL'', ''OIDC_USERINFO_URL'',
          ''MAILER_SMTP_URL'', ''MAILER_ADDRESS_FROM'']
   in map name out = keys \<and>
      (\<forall>e \<in> set out.
         e \<in> set infraConfigs \<or> (name e \<notin> name ` set infraConfigs \<and> value e = js '''')) \<and>
      (distinct (map name infraConfigs) \<longrightarrow>
         (\<forall>e \<in> set infraConfigs. name e \<in> set keys \<longrightarrow> e \<in> set out))"
  unfolding Let_def roundtrip_list
  using lookup_names lookup_from_input lookup_covers_input by blast

theorem build_then_reverse_roundtrip_witness:
  "distinct (map name exampleInfraConfigs) \<and>
   map name (updatedInfraConfigs
       (Some (enableAllSections (buildConfig exampleInfraConfigs exampleProviders)))) =
     map js
       [''GOOGLE_CLIENT_ID'', ''GOOGLE_CLIENT_SECRET'', ''GOOGLE_CALLBACK_URL'', ''GOOGLE_SCOPE'',
        ''MICROSOFT_CLIENT_ID'', ''MICROSOFT_CLIENT_SECRET'', ''MICROSOFT_CALLBACK_URL'',
        ''MICROSOFT_SCOPE'', ''MICROSOFT_TENANT'',
        ''GITHUB_CLIENT_ID'', ''GITHUB_CLIENT_SECRET'', ''GITHUB_CALLBACK_URL'', ''GITHUB_SCOPE'',
        ''OIDC_CLIENT_ID'', ''OIDC_CLIENT_SECRET'', ''OIDC_CALLBACK_URL'', ''OIDC_SCOPE'',
        ''OIDC_ISSUER'', ''OIDC_AUTH_URL'', ''OIDC_TOKEN_URL'', ''OIDC_USERINFO_URL'',
        ''MAILER_SMTP_URL'', ''MAILER_ADDRESS_FROM''] \<and>
   \<lparr>name = js ''GOOGLE_CLIENT_ID'', value = js ''abc''\<rparr> \<in>
     set (updatedInfraConfigs
       (Some (enableAllSections (buildConfig exampleInfraConfigs exampleProviders))))"
proof -
  have d: "distinct (map name exampleInfraConfigs)"
    by (simp add: exampleInfraConfigs_def)
  have m: "\<lparr>name = js ''GOOGLE_CLIENT_ID'', value = js ''abc''\<rparr> \<in> set exampleInfraConfigs"
    by (simp add: exampleInfraConfigs_def)
  from build_then_reverse_roundtrip [of exampleInfraConfigs exampleProviders] d m
  show ?thesis
    unfolding Let_def by auto
qed

text \<open>
  The round trip of the example lists: GOOGLE_CLIENT_ID keeps its value, every other key
  comes back with the empty string.
\<close>

lemma roundtrip_example:
  "updatedInfraConfigs (Some (enableAllSections (buildConfig exampleInfraConfigs exampleProviders))) =
     \<lparr>name = js ''GOOGLE_CLIENT_ID'', value = js ''abc''\<rparr> #
     map (\<lambda>k. \<lparr>name = js k, value = js ''''\<rparr>)
       [''GOOGLE_CLIENT_SECRET'', ''GOOGLE_CALLBACK_URL'', ''GOOGLE_SCOPE'',
        ''MICROSOFT_CLIENT_ID'', ''MICROSOFT_CLIENT_SECRET'', ''MICROSOFT_CALLBACK_URL'',
        ''MICROSOFT_SCOPE'', ''MICROSOFT_TENANT'',
        ''GITHUB_CLIENT_ID'', ''GITHUB_CLIENT_SECRET'', ''GITHUB_CALLBACK_URL'', ''GITHUB_SCOPE'',
        ''OIDC_CLIENT_ID'', ''OIDC_CLIENT_SECRET'', ''OIDC_CALLBACK_URL'', ''OIDC_SCOPE'',
        ''OIDC_ISSUER'', ''OIDC_AUTH_URL'', ''OIDC_TOKEN_URL'', ''OIDC_USERINFO_URL'',
        ''MAILER_SMTP_URL'', ''MAILER_ADDRESS_FROM'']"
  by (simp add: roundtrip_list exampleInfraConfigs_def getFieldValue_def)

text \<open>
  C2. For every fetched infra-config list, the built config's data-sharing flag is true
  if and only if the list has the entry named ALLOW_ANALYTICS_COLLECTION with the value
  "true", compared as a string: any other value, or no such entry, gives false.
\<close>

theorem dataSharing_enabled_iff:
  "enabled (dataSharingConfigs (buildConfig infraConfigs allowedAuthProviders)) \<longleftrightarrow>
     \<lparr>name = js ''ALLOW_ANALYTICS_COLLECTION'', value = js ''true''\<rparr> \<in> set infraConfigs"
  by (simp add: buildConfig_def find_name_value del: not_None_eq)

text \<open>The values "TRUE" and "1" and the empty list give false; a later "true" entry counts.\<close>

lemma dataSharing_enabled_examples:
  "\<not> enabled (dataSharingConfigs (buildConfig
       [\<lparr>name = js ''ALLOW_ANALYTICS_COLLECTION'', value = js ''TRUE''\<rparr>] ps))"
  "\<not> enabled (dataSharingConfigs (buildConfig
       [\<lparr>name = js ''ALLOW_ANALYTICS_COLLECTION'', value = js ''1''\<rparr>] ps))"
  "\<not> enabled (dataSharingConfigs (buildConfig [] ps))"
  "enabled (dataSharingConfigs (buildConfig
       [\<lparr>name = js ''ALLOW_ANALYTICS_COLLECTION'', value = js ''false''\<rparr>,
        \<lparr>name = js ''ALLOW_ANALYTICS_COLLECTION'', value = js ''true''\<rparr>] ps))"
  by (simp_all add: buildConfig_def)

text \<open>
  C3. For every config, a section (google, microsoft, github, oidc or mail) whose enabled
  flag is false contributes none of its key names to the infra-config reverse transform,
  whatever its fields hold.
\<close>

theorem disabled_section_excluded:
  "(\<not> enabled (google (providers c)) \<longrightarrow>
      set (map name (updatedInfraConfigs (Some c))) \<inter>
        set (map js [''GOOGLE_CLIENT_ID'', ''GOOGLE_CLIENT_SECRET'', ''GOOGLE_CALLBACK_URL'',
                ''GOOGLE_SCOPE'']) = {}) \<and>
   (\<not> enabled (microsoft (providers c)) \<longrightarrow>
      set (map name (updatedInfraConfigs (Some c))) \<inter>
        set (map js [''MICROSOFT_CLIENT_ID'', ''MICROSOFT_CLIENT_SECRET'', ''MICROSOFT_CALLBACK_URL'',
                ''MICROSOFT_SCOPE'', ''MICROSOFT_TENANT'']) = {}) \<and>
   (\<not> enabled (github (providers c)) \<longrightarrow>
      set (map name (updatedInfraConfigs (Some c))) \<inter>
        set (map js [''GITHUB_CLIENT_ID'', ''GITHUB_CLIENT_SECRET'', ''GITHUB_CALLBACK_URL'',
                ''GITHUB_SCOPE'']) = {}) \<and>
   (\<not> enabled (oidc (providers c)) \<longrightarrow>
      set (map name (updatedInfraConfigs (Some c))) \<inter>
        set (map js [''OIDC_CLIENT_ID'', ''OIDC_CLIENT_SECRET'', ''OIDC_CALLBACK_URL'', ''OIDC_SCOPE'',
                ''OIDC_ISSUER'', ''OIDC_AUTH_URL'', ''OIDC_TOKEN_URL'', ''OIDC_USERINFO_URL'']) = {}) \<and>
   (\<not> enabled (mailConfigs c) \<longrightarrow>
      set (map name (updatedInfraConfigs (Some c))) \<inter>
        set (map js [''MAILER_SMTP_URL'', ''MAILER_ADDRESS_FROM'']) = {})"
  by (simp add: updatedInfraConfigs_names)

theorem disabled_section_excluded_witness:
  "set (map name (updatedInfraConfigs (Some (exampleConfig False True True True True)))) \<inter>
     set (map js [''GOOGLE_CLIENT_ID'', ''GOOGLE_CLIENT_SECRET'', ''GOOGLE_CALLBACK_URL'',
                ''GOOGLE_SCOPE'']) = {} \<and>
   set (map name (updatedInfraConfigs (Some (exampleConfig True False True True True)))) \<inter>
     set (map js [''MICROSOFT_CLIENT_ID'', ''MICROSOFT_CLIENT_SECRET'', ''MICROSOFT_CALLBACK_URL'',
                ''MICROSOFT_SCOPE'', ''MICROSOFT_TENANT'']) = {} \<and>
   set (map name (updatedInfraConfigs (Some (exampleConfig True True False True True)))) \<inter>
     set (map js [''GITHUB_CLIENT_ID'', ''GITHUB_CLIENT_SECRET'', ''GITHUB_CALLBACK_URL'',
                ''GITHUB_SCOPE'']) = {} \<and>
   set (map name (updatedInfraConfigs (Some (exampleConfig True True True False True)))) \<inter>
     set (map js [''OIDC_CLIENT_ID'', ''OIDC_CLIENT_SECRET'', ''OIDC_CALLBACK_URL'', ''OIDC_SCOPE'',
                ''OIDC_ISSUER'', ''OIDC_AUTH_URL'', ''OIDC_TOKEN_URL'', ''OIDC_USERINFO_URL'']) = {} \<and>
   set (map name (updatedInfraConfigs (Some (exampleConfig True True True True False)))) \<inter>
     set (map js [''MAILER_SMTP_URL'', ''MAILER_ADDRESS_FROM'']) = {}"
  using
    disabled_section_excluded [of "exampleConfig False True True True True"]
    disabled_section_excluded [of "exampleConfig True False True True True"]
    disabled_section_excluded [of "exampleConfig True True False True True"]
    disabled_section_excluded [of "exampleConfig True True True False True"]
    disabled_section_excluded [of "exampleConfig True True True True False"]
  by (simp add: exampleConfig_def)

text \<open>
  C4. For every config, the auth-provider reverse transform is the four directives for
  GOOGLE, MICROSOFT, GITHUB and EMAIL, in this order, each with the status ENABLE when
  its section is enabled and DISABLE otherwise; its length is 4 whatever is enabled.
\<close>

theorem updatedAllowedAuthProviders_four:
  "updatedAllowedAuthProviders (Some c) =
     [\<lparr>provider = js ''GOOGLE'',
       status = (if enabled (google (providers c)) then js ''ENABLE'' else js ''DISABLE'')\<rparr>,
      \<lparr>provider = js ''MICROSOFT'',
       status = (if enabled (microsoft (providers c)) then js ''ENABLE'' else js ''DISABLE'')\<rparr>,
      \<lparr>provider = js ''GITHUB'',
       status = (if enabled (github (providers c)) then js ''ENABLE'' else js ''DISABLE'')\<rparr>,
      \<lparr>provider = js ''EMAIL'',
       status = (if enabled (mailConfigs c) then js ''ENABLE'' else js ''DISABLE'')\<rparr>] \<and>
   length (updatedAllowedAuthProviders (Some c)) = 4"
  by (simp add: updatedAllowedAuthProviders_def)

text \<open>
  C5. For every config, AreAnyConfigFieldsEmpty is true if and only if one of the
  sections github, google, microsoft and mail is enabled and has a field whose trimmed
  value is the empty string. A disabled section adds nothing, and the result does not
  change when the oidc section and the data-sharing section are replaced by any other.
\<close>

theorem AreAnyConfigFieldsEmpty_iff:
  "(AreAnyConfigFieldsEmpty c \<longleftrightarrow>
      enabled (github (providers c)) \<and>
        (trim (client_id (fields' (github (providers c)))) = js '''' \<or>
         trim (client_secret (fields' (github (providers c)))) = js '''' \<or>
         trim (callback_url (fields' (github (providers c)))) = js '''' \<or>
         trim (scope (fields' (github (providers c)))) = js '''') \<or>
      enabled (google (providers c)) \<and>
        (trim (client_id (fields' (google (providers c)))) = js '''' \<or>
         trim (client_secret (fields' (google (providers c)))) = js '''' \<or>
         trim (callback_url (fields' (google (providers c)))) = js '''' \<or>
         trim (scope (fields' (google (providers c)))) = js '''') \<or>
      enabled (microsoft (providers c)) \<and>
        (trim (client_id (fields' (microsoft (providers c)))) = js '''' \<or>
         trim (client_secret (fields' (microsoft (providers c)))) = js '''' \<or>
         trim (callback_url (fields' (microsoft (providers c)))) = js '''' \<or>
         trim (scope (fields' (microsoft (providers c)))) = js '''' \<or>
         trim (tenant (fields' (microsoft (providers c)))) = js '''') \<or>
      enabled (mailConfigs c) \<and>
        (trim (mailer_smtp_url (fields' (mailConfigs c))) = js '''' \<or>
         trim (mailer_from_address (fields' (mailConfigs c))) = js '''')) \<and>
   AreAnyConfigFieldsEmpty
       (c\<lparr>providers := (providers c)\<lparr>oidc := oidc'\<rparr>, dataSharingConfigs := sharing\<rparr>) =
     AreAnyConfigFieldsEmpty c"
  by (simp add: AreAnyConfigFieldsEmpty_def Let_def oauthSection_def microsoftSection_def
      mailSection_def Object_values_def isFieldEmpty_def)

text \<open>
  With every section enabled and filled the validator says no; github enabled with an
  empty client_id says yes; github disabled with all its fields empty says no.
\<close>

lemma AreAnyConfigFieldsEmpty_examples:
  "\<not> AreAnyConfigFieldsEmpty (exampleConfig True True True True True)"
  "AreAnyConfigFieldsEmpty
     ((exampleConfig False False True False False)
        \<lparr>providers := (providers (exampleConfig False False True False False))
           \<lparr>github := (github (providers (exampleConfig False False True False False)))
              \<lparr>fields' := (fields' (github (providers (exampleConfig False False True False False))))
                 \<lparr>client_id := js ''''\<rparr>\<rparr>\<rparr>\<rparr>)"
  "\<not> AreAnyConfigFieldsEmpty
     ((exampleConfig True True False True True)
        \<lparr>providers := (providers (exampleConfig True True False True True))
           \<lparr>github := (github (providers (exampleConfig True True False True True)))
              \<lparr>fields' := \<lparr>client_id = js '''', client_secret = js '''', callback_url = js '''',
                           scope = js ''''\<rparr>\<rparr>\<rparr>\<rparr>)"
  by (simp_all add: AreAnyConfigFieldsEmpty_def Let_def oauthSection_def microsoftSection_def
      mailSection_def Object_values_def isFieldEmpty_iff isWhiteSpace_def exampleConfig_def js_def)

text \<open>
  C6. For every config, the names of the infra-config reverse transform are the keys of
  the enabled sections in the order google, microsoft, github, oidc, mail, each section's
  keys in their fixed order; the empty name, and so the placeholder entry that seeds the
  list, is not in the result.
\<close>

theorem updatedInfraConfigs_order:
  "map name (updatedInfraConfigs (Some c)) =
     (if enabled (google (providers c)) then
        map js [''GOOGLE_CLIENT_ID'', ''GOOGLE_CLIENT_SECRET'', ''GOOGLE_CALLBACK_URL'',
                ''GOOGLE_SCOPE'']
      else []) @
     (if enabled (microsoft (providers c)) then
        map js [''MICROSOFT_CLIENT_ID'', ''MICROSOFT_CLIENT_SECRET'', ''MICROSOFT_CALLBACK_URL'',
                ''MICROSOFT_SCOPE'', ''MICROSOFT_TENANT'']
      else []) @
     (if enabled (github (providers c)) then
        map js [''GITHUB_CLIENT_ID'', ''GITHUB_CLIENT_SECRET'', ''GITHUB_CALLBACK_URL'',
                ''GITHUB_SCOPE'']
      else []) @
     (if enabled (oidc (providers c)) then
        map js [''OIDC_CLIENT_ID'', ''OIDC_CLIENT_SECRET'', ''OIDC_CALLBACK_URL'', ''OIDC_SCOPE'',
                ''OIDC_ISSUER'', ''OIDC_AUTH_URL'', ''OIDC_TOKEN_URL'', ''OIDC_USERINFO_URL'']
      else []) @
     (if enabled (mailConfigs c) then
        map js [''MAILER_SMTP_URL'', ''MAILER_ADDRESS_FROM'']
      else []) \<and>
   js '''' \<notin> set (map name (updatedInfraConfigs (Some c))) \<and>
   \<lparr>name = js '''', value = js ''''\<rparr> \<notin> set (updatedInfraConfigs (Some c))"
proof -
  have n: "js '''' \<notin> set (map name (updatedInfraConfigs (Some c)))"
    by (simp add: updatedInfraConfigs_names)
  then have "\<lparr>name = js '''', value = js ''''\<rparr> \<notin> set (updatedInfraConfigs (Some c))"
    by force
  with n updatedInfraConfigs_names [of c] show ?thesis
    by blast
qed

text \<open>
  C7. For every fetched infra-config list, whichever keys it lacks, mounting ends with
  both refs holding the built config (no step of the builder can raise: a lookup that
  finds nothing gives the default), and every field whose key is absent from the list is
  the empty string.
\<close>

theorem builder_defaults:
  "currentConfigs (onMounted infraConfigs allowedAuthProviders st) =
     Some (buildConfig infraConfigs allowedAuthProviders) \<and>
   workingConfigs (onMounted infraConfigs allowedAuthProviders st) =
     Some (buildConfig infraConfigs allowedAuthProviders) \<and>
   (js ''GOOGLE_CLIENT_ID'' \<notin> name ` set infraConfigs \<longrightarrow>
      client_id (fields' (google (providers (buildConfig infraConfigs allowedAuthProviders)))) = js '''') \<and>
   (js ''GOOGLE_CLIENT_SECRET'' \<notin> name ` set infraConfigs \<longrightarrow>
      client_secret (fields' (google (providers (buildConfig infraConfigs allowedAuthProviders)))) = js '''') \<and>
   (js ''GOOGLE_CALLBACK_URL'' \<notin> name ` set infraConfigs \<longrightarrow>
      callback_url (fields' (google (providers (buildConfig infraConfigs allowedAuthProviders)))) = js '''') \<and>
   (js ''GOOGLE_SCOPE'' \<notin> name ` set infraConfigs \<longrightarrow>
      scope (fields' (google (providers (buildConfig infraConfigs allowedAuthProviders)))) = js '''') \<and>
   (js ''GITHUB_CLIENT_ID'' \<notin> name ` set infraConfigs \<longrightarrow>
      client_id (fields' (github (providers (buildConfig infraConfigs allowedAuthProviders)))) = js '''') \<and>
   (js ''GITHUB_CLIENT_SECRET'' \<notin> name ` set infraConfigs \<longrightarrow>
      client_secret (fields' (github (providers (buildConfig infraConfigs allowedAuthProviders)))) = js '''') \<and>
   (js ''GITHUB_CALLBACK_URL'' \<notin> name ` set infraConfigs \<longrightarrow>
      callback_url (fields' (github (providers (buildConfig infraConfigs allowedAuthProviders)))) = js '''') \<and>
   (js ''GITHUB_SCOPE'' \<notin> name ` set infraConfigs \<longrightarrow>
      scope (fields' (github (providers (buildConfig infraConfigs allowedAuthProviders)))) = js '''') \<and>
   (js ''MICROSOFT_CLIENT_ID'' \<notin> name ` set infraConfigs \<longrightarrow>
      client_id (fields' (microsoft (providers (buildConfig infraConfigs allowedAuthProviders)))) = js '''') \<and>
   (js ''MICROSOFT_CLIENT_SECRET'' \<notin> name ` set infraConfigs \<longrightarrow>
      client_secret (fields' (microsoft (providers (buildConfig infraConfigs allowedAuthProviders)))) = js '''') \<and>
   (js ''MICROSOFT_CALLBACK_URL'' \<notin> name ` set infraConfigs \<longrightarrow>
      callback_url (fields' (microsoft (providers (buildConfig infraConfigs allowedAuthProviders)))) = js '''') \<and>
   (js ''MICROSOFT_SCOPE'' \<notin> name ` set infraConfigs \<longrightarrow>
      scope (fields' (microsoft (providers (buildConfig infraConfigs allowedAuthProviders)))) = js '''') \<and>
   (js ''MICROSOFT_TENANT'' \<notin> name ` set infraConfigs \<longrightarrow>
      tenant (fields' (microsoft (providers (buildConfig infraConfigs allowedAuthProviders)))) = js '''') \<and>
   (js ''OIDC_CLIENT_ID'' \<notin> name ` set infraConfigs \<longrightarrow>
      client_id (fields' (oidc (providers (buildConfig infraConfigs allowedAuthProviders)))) = js '''') \<and>
   (js ''OIDC_CLIENT_SECRET'' \<notin> name ` set infraConfigs \<longrightarrow>
      client_secret (fields' (oidc (providers (buildConfig infraConfigs allowedAuthProviders)))) = js '''') \<and>
   (js ''OIDC_CALLBACK_URL'' \<notin> name ` set infraConfigs \<longrightarrow>
      callback_url (fields' (oidc (providers (buildConfig infraConfigs allowedAuthProviders)))) = js '''') \<and>
   (js ''OIDC_SCOPE'' \<notin> name ` set infraConfigs \<longrightarrow>
      scope (fields' (oidc (providers (buildConfig infraConfigs allowedAuthProviders)))) = js '''') \<and>
   (js ''OIDC_ISSUER'' \<notin> name ` set infraConfigs \<longrightarrow>
      issuer (fields' (oidc (providers (buildConfig infraConfigs allowedAuthProviders)))) = js '''') \<and>
   (js ''OIDC_AUTH_URL'' \<notin> name ` set infraConfigs \<longrightarrow>
      auth_url (fields' (oidc (providers (buildConfig infraConfigs allowedAuthProviders)))) = js '''') \<and>
   (js ''OIDC_TOKEN_URL'' \<notin> name ` set infraConfigs \<longrightarrow>
      token_url (fields' (oidc (providers (buildConfig infraConfigs allowedAuthProviders)))) = js '''') \<and>
   (js ''OIDC_USERINFO_URL'' \<notin> name ` set infraConfigs \<longrightarrow>
      userinfo_url (fields' (oidc (providers (buildConfig infraConfigs allowedAuthProviders)))) = js '''') \<and>
   (js ''MAILER_SMTP_URL'' \<notin> name ` set infraConfigs \<longrightarrow>
      mailer_smtp_url (fields' (mailConfigs (buildConfig infraConfigs allowedAuthProviders))) = js '''') \<and>
   (js ''MAILER_ADDRESS_FROM'' \<notin> name ` set infraConfigs \<longrightarrow>
      mailer_from_address (fields' (mailConfigs (buildConfig infraConfigs allowedAuthProviders))) = js '''')"
  by (simp add: onMounted_refs buildConfig_def getFieldValue_absent)

theorem builder_defaults_witness:
  "currentConfigs (onMounted exampleInfraConfigs exampleProviders initialState) =
     Some (buildConfig exampleInfraConfigs exampleProviders) \<and>
   workingConfigs (onMounted exampleInfraConfigs exampleProviders initialState) =
     Some (buildConfig exampleInfraConfigs exampleProviders) \<and>
   client_secret (fields' (google (providers (buildConfig exampleInfraConfigs exampleProviders)))) = js '''' \<and>
   callback_url (fields' (google (providers (buildConfig exampleInfraConfigs exampleProviders)))) = js '''' \<and>
   scope (fields' (google (providers (buildConfig exampleInfraConfigs exampleProviders)))) = js '''' \<and>
   client_id (fields' (github (providers (buildConfig exampleInfraConfigs exampleProviders)))) = js '''' \<and>
   client_secret (fields' (github (providers (buildConfig exampleInfraConfigs exampleProviders)))) = js '''' \<and>
   callback_url (fields' (github (providers (buildConfig exampleInfraConfigs exampleProviders)))) = js '''' \<and>
   scope (fields' (github (providers (buildConfig exampleInfraConfigs exampleProviders)))) = js '''' \<and>
   client_id (fields' (microsoft (providers (buildConfig exampleInfraConfigs exampleProviders)))) = js '''' \<and>
   client_secret (fields' (microsoft (providers (buildConfig exampleInfraConfigs exampleProviders)))) = js '''' \<and>
   callback_url (fields' (microsoft (providers (buildConfig exampleInfraConfigs exampleProviders)))) = js '''' \<and>
   scope (fields' (microsoft (providers (buildConfig exampleInfraConfigs exampleProviders)))) = js '''' \<and>
   tenant (fields' (microsoft (providers (buildConfig exampleInfraConfigs exampleProviders)))) = js '''' \<and>
   client_id (fields' (oidc (providers (buildConfig exampleInfraConfigs exampleProviders)))) = js '''' \<and>
   client_secret (fields' (oidc (providers (buildConfig exampleInfraConfigs exampleProviders)))) = js '''' \<and>
   callback_url (fields' (oidc (providers (buildConfig exampleInfraConfigs exampleProviders)))) = js '''' \<and>
   scope (fields' (oidc (providers (buildConfig exampleInfraConfigs exampleProviders)))) = js '''' \<and>
   issuer (fields' (oidc (providers (buildConfig exampleInfraConfigs exampleProviders)))) = js '''' \<and>
   auth_url (fields' (oidc (providers (buildConfig exampleInfraConfigs exampleProviders)))) = js '''' \<and>
   token_url (fields' (oidc (providers (buildConfig exampleInfraConfigs exampleProviders)))) = js '''' \<and>
   userinfo_url (fields' (oidc (providers (buildConfig exampleInfraConfigs exampleProviders)))) = js '''' \<and>
   mailer_smtp_url (fields' (mailConfigs (buildConfig exampleInfraConfigs exampleProviders))) = js '''' \<and>
   mailer_from_address (fields' (mailConfigs (buildConfig exampleInfraConfigs exampleProviders))) = js ''''"
  using builder_defaults [of exampleInfraConfigs exampleProviders initialState]
  by (simp add: exampleInfraConfigs_def)

text \<open>
  The example scenario: GOOGLE_CLIENT_ID "abc" and ALLOW_ANALYTICS_COLLECTION "true", with
  the providers list holding GOOGLE only.
\<close>

lemma buildConfig_example:
  "enabled (google (providers (buildConfig exampleInfraConfigs exampleProviders)))"
  "client_id (fields' (google (providers (buildConfig exampleInfraConfigs exampleProviders)))) =
     js ''abc''"
  "enabled (dataSharingConfigs (buildConfig exampleInfraConfigs exampleProviders))"
  "\<not> enabled (github (providers (buildConfig exampleInfraConfigs exampleProviders)))"
  "\<not> enabled (microsoft (providers (buildConfig exampleInfraConfigs exampleProviders)))"
  "\<not> enabled (oidc (providers (buildConfig exampleInfraConfigs exampleProviders)))"
  "\<not> enabled (mailConfigs (buildConfig exampleInfraConfigs exampleProviders))"
  by (simp_all add: buildConfig_def exampleInfraConfigs_def exampleProviders_def
      getFieldValue_def)

text \<open>
  C8. For every mutation handle, variables and message key, the dispatcher returns false
  and adds exactly one toast, the translation of the key, when the result carries an
  error, and returns true and leaves the state as it is otherwise. The four call sites do
  the same with their own variables and the keys configs.auth_providers.update_failure,
  configs.mail_configs.update_failure (the infra-config update),
  configs.reset.failure and configs.data_sharing.update_failure.
\<close>

theorem mutation_dispatch:
  "(error (mutation variables) \<noteq> None \<longrightarrow>
      executeMutation t mutation variables errorMessage st =
        (False, st\<lparr>toasts := toasts st @ [t errorMessage]\<rparr>)) \<and>
   (error (mutation variables) = None \<longrightarrow>
      executeMutation t mutation variables errorMessage st = (True, st)) \<and>
   (error (mutation (ProviderInfoVariables (updatedAllowedAuthProviders updatedConfigs))) \<noteq> None \<longrightarrow>
      updateAuthProvider t updatedConfigs mutation st =
        (False, st\<lparr>toasts := toasts st @ [t (js ''configs.auth_providers.update_failure'')]\<rparr>)) \<and>
   (error (mutation (ProviderInfoVariables (updatedAllowedAuthProviders updatedConfigs))) = None \<longrightarrow>
      updateAuthProvider t updatedConfigs mutation st = (True, st)) \<and>
   (error (mutation (InfraConfigsVariables (updatedInfraConfigs updatedConfigs))) \<noteq> None \<longrightarrow>
      updateInfraConfigs t updatedConfigs mutation st =
        (False, st\<lparr>toasts := toasts st @ [t (js ''configs.mail_configs.update_failure'')]\<rparr>)) \<and>
   (error (mutation (InfraConfigsVariables (updatedInfraConfigs updatedConfigs))) = None \<longrightarrow>
      updateInfraConfigs t updatedConfigs mutation st = (True, st)) \<and>
   (error (mutation (UndefinedVariables)) \<noteq> None \<longrightarrow>
      resetInfraConfigs t mutation st =
        (False, st\<lparr>toasts := toasts st @ [t (js ''configs.reset.failure'')]\<rparr>)) \<and>
   (error (mutation (UndefinedVariables)) = None \<longrightarrow>
      resetInfraConfigs t mutation st = (True, st)) \<and>
   (error (mutation (StatusVariables
         (if truthy (map_option (\<lambda>c. enabled (dataSharingConfigs c)) updatedConfigs)
          then js ''ENABLE'' else js ''DISABLE''))) \<noteq> None \<longrightarrow>
      updateDataSharingConfigs t updatedConfigs mutation st =
        (False, st\<lparr>toasts := toasts st @ [t (js ''configs.data_sharing.update_failure'')]\<rparr>)) \<and>
   (error (mutation (StatusVariables
         (if truthy (map_option (\<lambda>c. enabled (dataSharingConfigs c)) updatedConfigs)
          then js ''ENABLE'' else js ''DISABLE''))) = None \<longrightarrow>
      updateDataSharingConfigs t updatedConfigs mutation st = (True, st))"
  by (simp add: executeMutation_def updateAuthProvider_def updateInfraConfigs_def
      resetInfraConfigs_def updateDataSharingConfigs_def Let_def)

theorem mutation_dispatch_witness:
  "executeMutation exampleT failingMutation UndefinedVariables (js ''some.key'') initialState =
     (False, initialState\<lparr>toasts := [exampleT (js ''some.key'')]\<rparr>) \<and>
   executeMutation exampleT succeedingMutation UndefinedVariables (js ''some.key'') initialState =
     (True, initialState) \<and>
   updateAuthProvider exampleT (Some (exampleConfig True True True True True)) failingMutation initialState =
     (False, initialState\<lparr>toasts := [exampleT (js ''configs.auth_providers.update_failure'')]\<rparr>) \<and>
   updateAuthProvider exampleT (Some (exampleConfig True True True True True)) succeedingMutation initialState =
     (True, initialState) \<and>
   updateInfraConfigs exampleT (Some (exampleConfig True True True True True)) failingMutation initialState =
     (False, initialState\<lparr>toasts := [exampleT (js ''configs.mail_configs.update_failure'')]\<rparr>) \<and>
   updateInfraConfigs exampleT (Some (exampleConfig True True True True True)) succeedingMutation initialState =
     (True, initialState) \<and>
   resetInfraConfigs exampleT failingMutation initialState =
     (False, initialState\<lparr>toasts := [exampleT (js ''configs.reset.failure'')]\<rparr>) \<and>
   resetInfraConfigs exampleT succeedingMutation initialState =
     (True, initialState) \<and>
   updateDataSharingConfigs exampleT (Some (exampleConfig True True True True True)) failingMutation initialState =
     (False, initialState\<lparr>toasts := [exampleT (js ''configs.data_sharing.update_failure'')]\<rparr>) \<and>
   updateDataSharingConfigs exampleT (Some (exampleConfig True True True True True)) succeedingMutation initialState =
     (True, initialState)"
proof -
  have f: "error (failingMutation v) \<noteq> None" for v
    by (simp add: failingMutation_def)
  have s: "error (succeedingMutation v) = None" for v
    by (simp add: succeedingMutation_def)
  have i: "toasts initialState = []"
    by (simp add: initialState_def)
  show ?thesis
    using
      mutation_dispatch [of failingMutation UndefinedVariables exampleT "js ''some.key''"
        initialState "Some (exampleConfig True True True True True)"]
      mutation_dispatch [of succeedingMutation UndefinedVariables exampleT "js ''some.key''"
        initialState "Some (exampleConfig True True True True True)"]
    by (simp add: f s i)
qed

text \<open>
  C9. For every invocation of the dispatcher or of one of the four update operations that
  returns false, currentConfigs and workingConfigs are after it what they were before.
\<close>

theorem failed_mutation_keeps_configs:
  "(\<not> fst (executeMutation t mutation variables errorMessage st) \<longrightarrow>
      currentConfigs (snd (executeMutation t mutation variables errorMessage st)) = currentConfigs st \<and>
      workingConfigs (snd (executeMutation t mutation variables errorMessage st)) = workingConfigs st) \<and>
   (\<not> fst (updateAuthProvider t updatedConfigs mutation st) \<longrightarrow>
      currentConfigs (snd (updateAuthProvider t updatedConfigs mutation st)) = currentConfigs st \<and>
      workingConfigs (snd (updateAuthProvider t updatedConfigs mutation st)) = workingConfigs st) \<and>
   (\<not> fst (updateInfraConfigs t updatedConfigs mutation st) \<longrightarrow>
      currentConfigs (snd (updateInfraConfigs t updatedConfigs mutation st)) = currentConfigs st \<and>
      workingConfigs (snd (updateInfraConfigs t updatedConfigs mutation st)) = workingConfigs st) \<and>
   (\<not> fst (resetInfraConfigs t mutation st) \<longrightarrow>
      currentConfigs (snd (resetInfraConfigs t mutation st)) = currentConfigs st \<and>
      workingConfigs (snd (resetInfraConfigs t mutation st)) = workingConfigs st) \<and>
   (\<not> fst (updateDataSharingConfigs t updatedConfigs mutation st) \<longrightarrow>
      currentConfigs (snd (updateDataSharingConfigs t updatedConfigs mutation st)) = currentConfigs st \<and>
      workingConfigs (snd (updateDataSharingConfigs t updatedConfigs mutation st)) = workingConfigs st)"
  by (simp add: executeMutation_def updateAuthProvider_def updateInfraConfigs_def
      resetInfraConfigs_def updateDataSharingConfigs_def Let_def)

theorem failed_mutation_keeps_configs_witness:
  "\<not> fst (executeMutation exampleT failingMutation UndefinedVariables (js ''some.key'') mountedState) \<and>
   currentConfigs (snd (executeMutation exampleT failingMutation UndefinedVariables (js ''some.key'') mountedState)) =
     Some (buildConfig exampleInfraConfigs exampleProviders) \<and>
   workingConfigs (snd (executeMutation exampleT failingMutation UndefinedVariables (js ''some.key'') mountedState)) =
     Some (buildConfig exampleInfraConfigs exampleProviders) \<and>
   \<not> fst (updateAuthProvider exampleT (Some (exampleConfig True True True True True)) failingMutation mountedState) \<and>
   currentConfigs (snd (updateAuthProvider exampleT (Some (exampleConfig True True True True True)) failingMutation mountedState)) =
     Some (buildConfig exampleInfraConfigs exampleProviders) \<and>
   workingConfigs (snd (updateAuthProvider exampleT (Some (exampleConfig True True True True True)) failingMutation mountedState)) =
     Some (buildConfig exampleInfraConfigs exampleProviders) \<and>
   \<not> fst (updateInfraConfigs exampleT (Some (exampleConfig True True True True True)) failingMutation mountedState) \<and>
   currentConfigs (snd (updateInfraConfigs exampleT (Some (exampleConfig True True True True True)) failingMutation mountedState)) =
     Some (buildConfig exampleInfraConfigs exampleProviders) \<and>
   workingConfigs (snd (updateInfraConfigs exampleT (Some (exampleConfig True True True True True)) failingMutation mountedState)) =
     Some (buildConfig exampleInfraConfigs exampleProviders) \<and>
   \<not> fst (resetInfraConfigs exampleT failingMutation mountedState) \<and>
   currentConfigs (snd (resetInfraConfigs exampleT failingMutation mountedState)) =
     Some (buildConfig exampleInfraConfigs exampleProviders) \<and>
   workingConfigs (snd (resetInfraConfigs exampleT failingMutation mountedState)) =
     Some (buildConfig exampleInfraConfigs exampleProviders) \<and>
   \<not> fst (updateDataSharingConfigs exampleT (Some (exampleConfig True True True True True)) failingMutation mountedState) \<and>
   currentConfigs (snd (updateDataSharingConfigs exampleT (Some (exampleConfig True True True True True)) failingMutation mountedState)) =
     Some (buildConfig exampleInfraConfigs exampleProviders) \<and>
   workingConfigs (snd (updateDataSharingConfigs exampleT (Some (exampleConfig True True True True True)) failingMutation mountedState)) =
     Some (buildConfig exampleInfraConfigs exampleProviders)"
proof -
  have f: "\<not> fst (executeMutation t failingMutation v k st)" for t v k st
    by (simp add: executeMutation_def failingMutation_def)
  have fails:
    "\<not> fst (executeMutation exampleT failingMutation UndefinedVariables (js ''some.key'') mountedState)"
    "\<not> fst (updateAuthProvider exampleT (Some (exampleConfig True True True True True)) failingMutation mountedState)"
    "\<not> fst (updateInfraConfigs exampleT (Some (exampleConfig True True True True True)) failingMutation mountedState)"
    "\<not> fst (resetInfraConfigs exampleT failingMutation mountedState)"
    "\<not> fst (updateDataSharingConfigs exampleT (Some (exampleConfig True True True True True)) failingMutation mountedState)"
    by (simp_all add: f updateAuthProvider_def updateInfraConfigs_def resetInfraConfigs_def
        updateDataSharingConfigs_def)
  have mounted:
    "currentConfigs mountedState = Some (buildConfig exampleInfraConfigs exampleProviders)"
    "workingConfigs mountedState = Some (buildConfig exampleInfraConfigs exampleProviders)"
    by (simp_all add: mountedState_def onMounted_refs)
  show ?thesis
    using
      failed_mutation_keeps_configs [of exampleT failingMutation UndefinedVariables
        "js ''some.key''" mountedState "Some (exampleConfig True True True True True)"]
    by (simp add: fails mounted)
qed

text \<open>
  C10. When updatedConfigs is undefined, the infra-config reverse transform is the empty
  list, the auth-provider reverse transform is the four directives with status DISABLE,
  and the data-sharing toggle runs its mutation with the status DISABLE.
\<close>

theorem undefined_updatedConfigs:
  "updatedInfraConfigs None = [] \<and>
   updatedAllowedAuthProviders None =
     [\<lparr>provider = js ''GOOGLE'', status = js ''DISABLE''\<rparr>,
      \<lparr>provider = js ''MICROSOFT'', status = js ''DISABLE''\<rparr>,
      \<lparr>provider = js ''GITHUB'', status = js ''DISABLE''\<rparr>,
      \<lparr>provider = js ''EMAIL'', status = js ''DISABLE''\<rparr>] \<and>
   updateDataSharingConfigs t None toggleDataSharingMutation st =
     executeMutation t toggleDataSharingMutation (StatusVariables (js ''DISABLE''))
       (js ''configs.data_sharing.update_failure'') st"
  by (simp add: updatedInfraConfigs_def updatedAllowedAuthProviders_def
      updateDataSharingConfigs_def)

end
